theory Spec2Isabelle
  imports Main
begin

section \<open>Package toml2: runes, strings and the rune reader\<close>

text \<open>
  A Go \<^verbatim>\<open>rune\<close> is a signed 32-bit integer. The decoder only compares runes and never
  computes with them, so a rune is an \<open>int\<close>; the conversion from \<^verbatim>\<open>int64\<close> in
  \<^verbatim>\<open>parseUnicodeEscapeSequence\<close> writes the truncation out. A Go string is a sequence
  of bytes, which is what \<open>string\<close> is here.
\<close>

type_synonym rune = int

definition eof :: rune where
  "eof = - (0 + 1)"

definition tab :: rune where "tab = 0x09"
definition space :: rune where "space = 0x20"
definition lf :: rune where "lf = 0x0A"
definition cr :: rune where "cr = 0x0D"

text \<open>
  Rune literals of the source: \<open>ch CHR ''a''\<close> is \<^verbatim>\<open>'a'\<close>. The two quotes and the
  backslash have names.
\<close>

definition ch :: "char \<Rightarrow> rune" where
  "ch c = of_char c"

definition quote :: rune where "quote = 0x27"
definition dquote :: rune where "dquote = 0x22"
definition backslash :: rune where "backslash = 0x5C"

text \<open>
  The conversion \<^verbatim>\<open>string(r)\<close> of a rune: its UTF-8 encoding, where a value that is not
  a Unicode scalar value (negative, a surrogate, or above \<open>0x10FFFF\<close>) becomes the
  encoding of the replacement character \<open>U+FFFD\<close>.
\<close>

definition valid_rune :: "rune \<Rightarrow> bool" where
  "valid_rune r = (0 \<le> r \<and> r \<le> 0x10FFFF \<and> \<not> (0xD800 \<le> r \<and> r \<le> 0xDFFF))"

definition byte :: "int \<Rightarrow> char" where
  "byte i = char_of i"

definition string_of_rune :: "rune \<Rightarrow> string" where
  "string_of_rune r0 =
     (let r = (if valid_rune r0 then r0 else 0xFFFD) in
      if r < 0x80 then [byte r]
      else if r < 0x800 then [byte (0xC0 + r div 0x40), byte (0x80 + r mod 0x40)]
      else if r < 0x10000 then
        [byte (0xE0 + r div 0x1000), byte (0x80 + (r div 0x40) mod 0x40), byte (0x80 + r mod 0x40)]
      else
        [byte (0xF0 + r div 0x40000), byte (0x80 + (r div 0x1000) mod 0x40),
         byte (0x80 + (r div 0x40) mod 0x40), byte (0x80 + r mod 0x40)])"

definition string_of_runes :: "rune list \<Rightarrow> string" where
  "string_of_runes rs = concat (map string_of_rune rs)"

text \<open>
  The reader of package \<^verbatim>\<open>go-buffruneio\<close> is imported, not part of the repository.
  Its contract, as the decoder relies on it: the reader holds the runes not yet read;
  \<^verbatim>\<open>PeekRunes(n)\<close> returns at most the next \<open>n\<close> runes without moving, and includes the
  end-of-input sentinel when it reaches the end, after which it stops; \<^verbatim>\<open>ReadRune\<close>
  returns the next rune and moves past it, and returns the sentinel at the end. An
  in-memory source never reports an error other than the end of the input, which the
  reader turns into the sentinel: the error result of \<^verbatim>\<open>ReadRune\<close> is then \<^verbatim>\<open>nil\<close>.
\<close>

record Reader =
  pending :: "rune list"

datatype ioerror = IOError string

definition PeekRunes :: "Reader \<Rightarrow> nat \<Rightarrow> rune list" where
  "PeekRunes rd n = take n (pending rd @ [eof])"

definition ReadRune :: "Reader \<Rightarrow> rune \<times> ioerror option \<times> Reader" where
  "ReadRune rd =
     (case pending rd of
        [] \<Rightarrow> (eof, None, rd)
      | r # rs \<Rightarrow> (r, None, rd\<lparr>pending := rs\<rparr>))"

record Decoder =
  reader :: Reader

definition NewDecoder :: "rune list \<Rightarrow> Decoder" where
  "NewDecoder rs = \<lparr>reader = \<lparr>pending = rs\<rparr>\<rparr>"

text \<open>An input written as ASCII text, as the runes the reader decodes from it.\<close>

definition runes :: "string \<Rightarrow> rune list" where
  "runes s = map ch s"

subsection \<open>Failures\<close>

text \<open>
  A function of the decoder ends in one of three ways: it returns, it returns an error
  value built by \<^verbatim>\<open>fmt.Errorf\<close>, or it panics. Nothing in the package recovers from a
  panic, so a panic ends the whole call of \<^verbatim>\<open>Decode\<close>. The constructors of \<open>error\<close>
  stand for the messages of the source, with the formatted arguments as fields.
\<close>

datatype panic =
    UnfinishedDocument
  | ReadPanic "ioerror option"
  | IndexOutOfRange
  | MakeSliceOutOfRange

datatype error =
    ErrNeedsPointer
  | ErrNilPointer
  | ErrKey error
  | ErrExpectedEquals rune
  | ErrUnexpectedTopLevel rune
  | ErrLiteralKey error
  | ErrQuotedKey error
  | ErrEmptyKey
  | ErrUnfinishedLiteral
  | ErrUnfinishedString
  | ErrUnfinishedEscape
  | ErrInvalid4 error
  | ErrInvalid8 error
  | ErrUnescapedControl rune
  | ErrUnfinishedSequence
  | ErrIncorrectCharacter rune
  | ErrInvalidCode string

datatype failure = Panic panic | Error error

subsection \<open>Primitives of the decoder\<close>

definition peek :: "Decoder \<Rightarrow> failure + rune" where
  "peek dec =
     (let rs = PeekRunes (reader dec) 1 in
      if length rs \<noteq> 1 then Inl (Panic UnfinishedDocument) else Inr (rs ! 0))"

definition peekRunes :: "Decoder \<Rightarrow> nat \<Rightarrow> rune list" where
  "peekRunes dec n = PeekRunes (reader dec) n"

text \<open>
  \<^verbatim>\<open>read\<close> calls \<^verbatim>\<open>ReadRune\<close> and then panics with the error it got, whatever it is;
  the \<^verbatim>\<open>return r\<close> after the panic is never reached.
\<close>

definition read :: "Decoder \<Rightarrow> failure + rune \<times> Decoder" where
  "read dec =
     (case ReadRune (reader dec) of
        (r, err, rd) \<Rightarrow> Inl (Panic (ReadPanic err)))"

subsection \<open>Classification of runes\<close>

text \<open>
  \<^verbatim>\<open>unicode.IsLetter\<close> and \<^verbatim>\<open>unicode.IsNumber\<close> belong to the Go library. Up to
  \<open>U+00FF\<close> they read a fixed property table, written out here; above it they search
  the range tables \<^verbatim>\<open>unicode.Letter\<close> and \<^verbatim>\<open>unicode.Number\<close>, which are parameters of
  the model. The tables hold code points only, so no value outside \<open>0..0x10FFFF\<close> is a
  letter or a number, the sentinel included.
\<close>

record unicode =
  Letter :: "rune \<Rightarrow> bool"
  Number :: "rune \<Rightarrow> bool"

definition latin1_letter :: "rune \<Rightarrow> bool" where
  "latin1_letter r =
     ((0x41 \<le> r \<and> r \<le> 0x5A) \<or> (0x61 \<le> r \<and> r \<le> 0x7A) \<or>
      r = 0xAA \<or> r = 0xB5 \<or> r = 0xBA \<or>
      (0xC0 \<le> r \<and> r \<le> 0xD6) \<or> (0xD8 \<le> r \<and> r \<le> 0xF6) \<or> (0xF8 \<le> r \<and> r \<le> 0xFF))"

definition latin1_number :: "rune \<Rightarrow> bool" where
  "latin1_number r =
     ((0x30 \<le> r \<and> r \<le> 0x39) \<or> r = 0xB2 \<or> r = 0xB3 \<or> r = 0xB9 \<or>
      (0xBC \<le> r \<and> r \<le> 0xBE))"

definition IsLetter :: "unicode \<Rightarrow> rune \<Rightarrow> bool" where
  "IsLetter U r =
     (if 0 \<le> r \<and> r \<le> 0xFF then latin1_letter r
      else 0x100 \<le> r \<and> r \<le> 0x10FFFF \<and> Letter U r)"

definition IsNumber :: "unicode \<Rightarrow> rune \<Rightarrow> bool" where
  "IsNumber U r =
     (if 0 \<le> r \<and> r \<le> 0xFF then latin1_number r
      else 0x100 \<le> r \<and> r \<le> 0x10FFFF \<and> Number U r)"

definition isRuneWhitespace :: "rune \<Rightarrow> bool" where
  "isRuneWhitespace r = (r = space \<or> r = tab)"

definition isStartOfKey :: "rune \<Rightarrow> bool" where
  "isStartOfKey r =
     ((r \<ge> ch CHR ''a'' \<and> r \<le> ch CHR ''z'') \<or> (r \<ge> ch CHR ''A'' \<and> r \<le> ch CHR ''Z'') \<or>
      (r \<ge> ch CHR ''0'' \<and> r \<le> ch CHR ''9'') \<or>
      r = ch CHR ''-'' \<or> r = ch CHR ''_'' \<or>
      r = quote \<or> r = dquote)"

definition isDigit :: "unicode \<Rightarrow> rune \<Rightarrow> bool" where
  "isDigit U r = IsNumber U r"

definition isHexDigit :: "unicode \<Rightarrow> rune \<Rightarrow> bool" where
  "isHexDigit U r =
     (isDigit U r \<or>
      (r \<ge> ch CHR ''a'' \<and> r \<le> ch CHR ''f'') \<or>
      (r \<ge> ch CHR ''A'' \<and> r \<le> ch CHR ''F''))"

definition isAlphanumeric :: "unicode \<Rightarrow> rune \<Rightarrow> bool" where
  "isAlphanumeric U r = (IsLetter U r \<or> r = ch CHR ''_'')"

definition isValidBareKeyChar :: "unicode \<Rightarrow> rune \<Rightarrow> bool" where
  "isValidBareKeyChar U r = (isAlphanumeric U r \<or> r = ch CHR ''-'' \<or> IsNumber U r)"

subsection \<open>Skipping whitespace, line ends and comments\<close>

text \<open>
  Every \<^verbatim>\<open>for { ... }\<close> of the source is a recursive function that may not return:
  the value \<open>None\<close> is a loop that runs forever.
\<close>

partial_function (option) skipWhitespace :: "Decoder \<Rightarrow> (failure + Decoder) option" where
  "skipWhitespace dec =
     (case peek dec of
        Inl f \<Rightarrow> Some (Inl f)
      | Inr r \<Rightarrow>
          if r = eof then Some (Inr dec)
          else if isRuneWhitespace r then
            (case read dec of
               Inl f \<Rightarrow> Some (Inl f)
             | Inr (_, dec1) \<Rightarrow> skipWhitespace dec1)
          else skipWhitespace dec)"

text \<open>The inner loop of the comment branch (source lines 302 to 316).\<close>

partial_function (option) skipComment_loop :: "Decoder \<Rightarrow> (failure + Decoder) option" where
  "skipComment_loop dec =
     (let rs = peekRunes dec 2 in
      if length rs = 2 \<and> rs ! 0 = cr \<and> rs ! 1 = lf then
        (case read dec of
           Inl f \<Rightarrow> Some (Inl f)
         | Inr (_, dec1) \<Rightarrow>
             (case read dec1 of
                Inl f \<Rightarrow> Some (Inl f)
              | Inr (_, dec2) \<Rightarrow> Some (Inr dec2)))
      else if length rs = 1 \<and> rs ! 0 = lf then
        (case read dec of
           Inl f \<Rightarrow> Some (Inl f)
         | Inr (_, dec1) \<Rightarrow> Some (Inr dec1))
      else if length rs = 1 \<and> rs ! 0 = eof then Some (Inr dec)
      else skipComment_loop dec)"

partial_function (option) skipWhitespaceAndNewlinesAndComments ::
    "Decoder \<Rightarrow> (failure + Decoder) option" where
  "skipWhitespaceAndNewlinesAndComments dec =
     (case peek dec of
        Inl f \<Rightarrow> Some (Inl f)
      | Inr r \<Rightarrow>
          if r = eof then Some (Inr dec)
          else if isRuneWhitespace r \<or> r = lf then
            (case read dec of
               Inl f \<Rightarrow> Some (Inl f)
             | Inr (_, dec1) \<Rightarrow> skipWhitespaceAndNewlinesAndComments dec1)
          else if r = cr \<and>
              (let rs = peekRunes dec 2 in length rs = 2 \<and> rs ! 0 = cr \<and> rs ! 1 = lf) then
            (case read dec of
               Inl f \<Rightarrow> Some (Inl f)
             | Inr (_, dec1) \<Rightarrow>
                 (case read dec1 of
                    Inl f \<Rightarrow> Some (Inl f)
                  | Inr (_, dec2) \<Rightarrow> skipWhitespaceAndNewlinesAndComments dec2))
          else if r = ch CHR ''#'' then
            (case read dec of
               Inl f \<Rightarrow> Some (Inl f)
             | Inr (_, dec1) \<Rightarrow> skipComment_loop dec1)
          else Some (Inr dec))"

subsection \<open>Strings\<close>

partial_function (option) parseLiteralString_loop ::
    "Decoder \<Rightarrow> string \<Rightarrow> (failure + string \<times> Decoder) option" where
  "parseLiteralString_loop dec growingString =
     (case peek dec of
        Inl f \<Rightarrow> Some (Inl f)
      | Inr r \<Rightarrow>
          if r = eof then Some (Inl (Error ErrUnfinishedLiteral))
          else if r = quote then
            (case read dec of
               Inl f \<Rightarrow> Some (Inl f)
             | Inr (_, dec1) \<Rightarrow> Some (Inr (growingString, dec1)))
          else parseLiteralString_loop dec (growingString @ string_of_rune r))"

definition parseLiteralString :: "Decoder \<Rightarrow> (failure + string \<times> Decoder) option" where
  "parseLiteralString dec = parseLiteralString_loop dec ''''"

text \<open>
  \<^verbatim>\<open>strconv.ParseInt(s, 16, bitSize)\<close> of the Go library, by its contract: an optional
  sign, then one or more hexadecimal digits; the value must fit a signed integer of
  \<open>bitSize\<close> bits (64 bits when \<open>bitSize\<close> is 0). \<open>None\<close> is any error; the source
  ignores the value returned with an error.
\<close>

definition hex_value :: "char \<Rightarrow> int option" where
  "hex_value c =
     (let i = (of_char c :: int) in
      if 0x30 \<le> i \<and> i \<le> 0x39 then Some (i - 0x30)
      else if 0x61 \<le> i \<and> i \<le> 0x66 then Some (i - 0x61 + 10)
      else if 0x41 \<le> i \<and> i \<le> 0x46 then Some (i - 0x41 + 10)
      else None)"

fun parse_hex :: "string \<Rightarrow> int \<Rightarrow> int option" where
  "parse_hex [] n = Some n"
| "parse_hex (c # cs) n =
     (case hex_value c of
        None \<Rightarrow> None
      | Some d \<Rightarrow> parse_hex cs (n * 16 + d))"

definition ParseInt16 :: "string \<Rightarrow> int \<Rightarrow> int option" where
  "ParseInt16 s bitSize =
     (case s of
        [] \<Rightarrow> None
      | c # cs \<Rightarrow>
          (let neg = (c = CHR ''-'');
               body = (if c = CHR ''+'' \<or> c = CHR ''-'' then cs else s)
           in if body = [] \<or> bitSize < 0 \<or> 64 < bitSize then None
              else
                (case parse_hex body 0 of
                   None \<Rightarrow> None
                 | Some un \<Rightarrow>
                     (let bits = (if bitSize = 0 then 64 else bitSize);
                          cutoff = 2 ^ nat (bits - 1)
                      in if \<not> neg \<and> un \<ge> cutoff then None
                         else if neg \<and> un > cutoff then None
                         else Some (if neg then - un else un)))))"

text \<open>The conversion \<^verbatim>\<open>rune(intcode)\<close> keeps the low 32 bits, read as a signed value.\<close>

definition rune_of_int64 :: "int \<Rightarrow> rune" where
  "rune_of_int64 i = (i + 2 ^ 31) mod 2 ^ 32 - 2 ^ 31"

text \<open>The \<^verbatim>\<open>for _, c := range hexRunes\<close> of \<^verbatim>\<open>parseUnicodeEscapeSequence\<close>.\<close>

fun readHexRunes :: "unicode \<Rightarrow> Decoder \<Rightarrow> rune list \<Rightarrow> failure + Decoder" where
  "readHexRunes U dec [] = Inr dec"
| "readHexRunes U dec (c # cs) =
     (case read dec of
        Inl f \<Rightarrow> Inl f
      | Inr (_, dec1) \<Rightarrow>
          if \<not> isHexDigit U c then Inl (Error (ErrIncorrectCharacter c))
          else readHexRunes U dec1 cs)"

text \<open>
  The argument \<open>n\<close> is the source's \<^verbatim>\<open>length\<close>. \<^verbatim>\<open>PeekRunes\<close> allocates a slice of
  capacity \<open>n\<close>, which panics for a negative \<open>n\<close>; \<^verbatim>\<open>hexRunes[length - 1]\<close> panics
  when \<open>n\<close> is 0.
\<close>

definition parseUnicodeEscapeSequence ::
    "unicode \<Rightarrow> Decoder \<Rightarrow> int \<Rightarrow> failure + string \<times> Decoder" where
  "parseUnicodeEscapeSequence U dec n =
     (if n < 0 then Inl (Panic MakeSliceOutOfRange)
      else
        (let hexRunes = peekRunes dec (nat n) in
         if int (length hexRunes) < n then Inl (Error ErrUnfinishedSequence)
         else if n = 0 then Inl (Panic IndexOutOfRange)
         else if hexRunes ! nat (n - 1) = eof then Inl (Error ErrUnfinishedSequence)
         else
           (case readHexRunes U dec hexRunes of
              Inl f \<Rightarrow> Inl f
            | Inr dec1 \<Rightarrow>
                (let code = string_of_runes hexRunes in
                 case ParseInt16 code (n * 8) of
                   None \<Rightarrow> Inl (Error (ErrInvalidCode code))
                 | Some intcode \<Rightarrow> Inr (string_of_rune (rune_of_int64 intcode), dec1)))))"

text \<open>
  An error returned by a callee is wrapped in the caller's message; a panic passes
  through unchanged.
\<close>

fun wrap :: "(error \<Rightarrow> error) \<Rightarrow> failure \<Rightarrow> failure" where
  "wrap c (Panic p) = Panic p"
| "wrap c (Error e) = Error (c e)"

text \<open>
  The dispatch on the rune \<open>e\<close> after a backslash (source lines 180 to 206), with the
  backslash already read and \<open>e\<close> only peeked. The chain has no final \<^verbatim>\<open>else\<close>.
\<close>

definition escape ::
    "unicode \<Rightarrow> Decoder \<Rightarrow> rune \<Rightarrow> string \<Rightarrow> failure + string \<times> Decoder" where
  "escape U dec e growingString =
     (if e = dquote \<or> e = backslash \<or> e = ch CHR ''/'' \<or> e = ch CHR ''b'' then
        Inr (growingString @ string_of_rune e, dec)
      else if e = ch CHR ''b'' then Inr (growingString @ [byte 0x08], dec)
      else if e = ch CHR ''f'' then Inr (growingString @ [byte 0x0C], dec)
      else if e = ch CHR ''n'' then Inr (growingString @ [byte 0x0A], dec)
      else if e = ch CHR ''r'' then Inr (growingString @ [byte 0x0D], dec)
      else if e = ch CHR ''t'' then Inr (growingString @ [byte 0x09], dec)
      else if e = ch CHR ''u'' then
        (case read dec of
           Inl f \<Rightarrow> Inl f
         | Inr (_, dec1) \<Rightarrow>
             (case parseUnicodeEscapeSequence U dec1 4 of
                Inl f \<Rightarrow> Inl (wrap ErrInvalid4 f)
              | Inr (unicodeString, dec2) \<Rightarrow> Inr (growingString @ unicodeString, dec2)))
      else if e = ch CHR ''U'' then
        (case read dec of
           Inl f \<Rightarrow> Inl f
         | Inr (_, dec1) \<Rightarrow>
             (case parseUnicodeEscapeSequence U dec1 8 of
                Inl f \<Rightarrow> Inl (wrap ErrInvalid8 f)
              | Inr (unicodeString, dec2) \<Rightarrow> Inr (growingString @ unicodeString, dec2)))
      else Inr (growingString, dec))"

partial_function (option) parseQuotedString_loop ::
    "unicode \<Rightarrow> Decoder \<Rightarrow> string \<Rightarrow> (failure + string \<times> Decoder) option" where
  "parseQuotedString_loop U dec growingString =
     (case peek dec of
        Inl f \<Rightarrow> Some (Inl f)
      | Inr r \<Rightarrow>
          if r = eof then Some (Inl (Error ErrUnfinishedString))
          else if r = dquote then
            (case read dec of
               Inl f \<Rightarrow> Some (Inl f)
             | Inr (_, dec1) \<Rightarrow> Some (Inr (growingString, dec1)))
          else if r = backslash then
            (case read dec of
               Inl f \<Rightarrow> Some (Inl f)
             | Inr (_, dec1) \<Rightarrow>
                 (case peek dec1 of
                    Inl f \<Rightarrow> Some (Inl f)
                  | Inr e \<Rightarrow>
                      if e = eof then Some (Inl (Error ErrUnfinishedEscape))
                      else
                        (case escape U dec1 e growingString of
                           Inl f \<Rightarrow> Some (Inl f)
                         | Inr (g, dec2) \<Rightarrow> parseQuotedString_loop U dec2 g)))
          else if 0x00 \<le> r \<and> r \<le> 0x1F then Some (Inl (Error (ErrUnescapedControl r)))
          else
            (case read dec of
               Inl f \<Rightarrow> Some (Inl f)
             | Inr (_, dec1) \<Rightarrow>
                 parseQuotedString_loop U dec1 (growingString @ string_of_rune r)))"

definition parseQuotedString ::
    "unicode \<Rightarrow> Decoder \<Rightarrow> (failure + string \<times> Decoder) option" where
  "parseQuotedString U dec = parseQuotedString_loop U dec ''''"

subsection \<open>Keys\<close>

text \<open>The loop of the bare-key branch of \<^verbatim>\<open>parseSimpleKey\<close> (source lines 123 to 131).\<close>

partial_function (option) bareKey_loop ::
    "unicode \<Rightarrow> Decoder \<Rightarrow> string \<Rightarrow> (failure + string \<times> Decoder) option" where
  "bareKey_loop U dec growingString =
     (case peek dec of
        Inl f \<Rightarrow> Some (Inl f)
      | Inr r \<Rightarrow>
          if isValidBareKeyChar U r then
            (case read dec of
               Inl f \<Rightarrow> Some (Inl f)
             | Inr (_, dec1) \<Rightarrow> bareKey_loop U dec1 (growingString @ string_of_rune r))
          else Some (Inr (growingString, dec)))"

definition parseSimpleKey ::
    "unicode \<Rightarrow> Decoder \<Rightarrow> (failure + string \<times> Decoder) option" where
  "parseSimpleKey U dec =
     (case peek dec of
        Inl f \<Rightarrow> Some (Inl f)
      | Inr r \<Rightarrow>
          if r = quote then
            (case read dec of
               Inl f \<Rightarrow> Some (Inl f)
             | Inr (_, dec1) \<Rightarrow>
                 (case parseLiteralString dec1 of
                    None \<Rightarrow> None
                  | Some (Inl f) \<Rightarrow> Some (Inl (wrap ErrLiteralKey f))
                  | Some (Inr (key, dec2)) \<Rightarrow> Some (Inr (key, dec2))))
          else if r = dquote then
            (case read dec of
               Inl f \<Rightarrow> Some (Inl f)
             | Inr (_, dec1) \<Rightarrow>
                 (case parseQuotedString U dec1 of
                    None \<Rightarrow> None
                  | Some (Inl f) \<Rightarrow> Some (Inl (wrap ErrQuotedKey f))
                  | Some (Inr (key, dec2)) \<Rightarrow>
                      if length key = 0 then Some (Inl (Error ErrEmptyKey))
                      else Some (Inr (key, dec2))))
          else bareKey_loop U dec '''')"

partial_function (option) parseDottedKey_loop ::
    "unicode \<Rightarrow> Decoder \<Rightarrow> string \<Rightarrow> (failure + string \<times> Decoder) option" where
  "parseDottedKey_loop U dec key =
     (case peek dec of
        Inl f \<Rightarrow> Some (Inl f)
      | Inr r \<Rightarrow>
          if r \<noteq> ch CHR ''.'' then Some (Inr (key, dec))
          else
            (case read dec of
               Inl f \<Rightarrow> Some (Inl f)
             | Inr (_, dec1) \<Rightarrow>
                 (case parseSimpleKey U dec1 of
                    None \<Rightarrow> None
                  | Some (Inl f) \<Rightarrow> Some (Inl f)
                  | Some (Inr (keyPart, dec2)) \<Rightarrow>
                      parseDottedKey_loop U dec2 (key @ ''.'' @ keyPart))))"

definition parseDottedKey ::
    "unicode \<Rightarrow> Decoder \<Rightarrow> (failure + string \<times> Decoder) option" where
  "parseDottedKey U dec =
     (case parseSimpleKey U dec of
        None \<Rightarrow> None
      | Some (Inl f) \<Rightarrow> Some (Inl f)
      | Some (Inr (key, dec1)) \<Rightarrow> parseDottedKey_loop U dec1 key)"

subsection \<open>Decode\<close>

text \<open>
  The argument \<^verbatim>\<open>v interface{}\<close> as \<^verbatim>\<open>reflect.ValueOf\<close> sees it: not a pointer, a nil
  pointer, or a pointer to the caller's target, whose content is of type \<open>'t\<close>. The
  source has no statement that writes through \<^verbatim>\<open>rv\<close>. \<open>Decode\<close> returns how the call
  ended (\<open>None\<close>: it never ended; \<open>Inr\<close>: it returned \<^verbatim>\<open>nil\<close>, with the decoder as it
  left it) together with the argument as the caller finds it afterwards.
\<close>

datatype 't arg = NotPointer | NilPointer | Pointer 't

definition Decode_run :: "unicode \<Rightarrow> Decoder \<Rightarrow> (failure + Decoder) option" where
  "Decode_run U dec =
     (case skipWhitespaceAndNewlinesAndComments dec of
        None \<Rightarrow> None
      | Some (Inl f) \<Rightarrow> Some (Inl f)
      | Some (Inr dec1) \<Rightarrow>
          (case peek dec1 of
             Inl f \<Rightarrow> Some (Inl f)
           | Inr r \<Rightarrow>
               if r = ch CHR ''['' then Some (Inr dec1)
               else if isStartOfKey r then
                 (case parseDottedKey U dec1 of
                    None \<Rightarrow> None
                  | Some (Inl f) \<Rightarrow> Some (Inl (wrap ErrKey f))
                  | Some (Inr (key, dec2)) \<Rightarrow>
                      (case skipWhitespace dec2 of
                         None \<Rightarrow> None
                       | Some (Inl f) \<Rightarrow> Some (Inl f)
                       | Some (Inr dec3) \<Rightarrow>
                           (case peek dec3 of
                              Inl f \<Rightarrow> Some (Inl f)
                            | Inr r' \<Rightarrow>
                                if r' \<noteq> ch CHR ''='' then
                                  Some (Inl (Error (ErrExpectedEquals r')))
                                else
                                  (case read dec3 of
                                     Inl f \<Rightarrow> Some (Inl f)
                                   | Inr (_, dec4) \<Rightarrow> skipWhitespace dec4))))
               else Some (Inl (Error (ErrUnexpectedTopLevel r)))))"

definition Decode ::
    "unicode \<Rightarrow> Decoder \<Rightarrow> 't arg \<Rightarrow> (failure + Decoder) option \<times> 't arg" where
  "Decode U dec v =
     (case v of
        NotPointer \<Rightarrow> (Some (Inl (Error ErrNeedsPointer)), v)
      | NilPointer \<Rightarrow> (Some (Inl (Error ErrNilPointer)), v)
      | Pointer t \<Rightarrow> (Decode_run U dec, v))"

text \<open>
  The inputs of the examples are ASCII text, for which \<^verbatim>\<open>unicode.IsLetter\<close> and
  \<^verbatim>\<open>unicode.IsNumber\<close> never consult the range tables; the examples take tables with
  nothing in them.
\<close>

definition empty_tables :: unicode where
  "empty_tables = \<lparr>Letter = (\<lambda>r. False), Number = (\<lambda>r. False)\<rparr>"

section \<open>Package jpath: the index match\<close>

text \<open>
  A node is a value of type \<^verbatim>\<open>interface{}\<close>; the index match only asks whether it
  is a \<^verbatim>\<open>[]interface{}\<close>. An index expression \<^verbatim>\<open>arr[i]\<close> of Go panics when \<open>i\<close> is out
  of range, so indexing is a partial operation here, and a call ends either with the
  query context it leaves or with that panic. The next functor of the chain and the
  query context are parameters.
\<close>

datatype node = Array "node list" | Other string

datatype 'c outcome = IndexPanic | Done 'c

definition index :: "node list \<Rightarrow> int \<Rightarrow> node option" where
  "index arr i = (if 0 \<le> i \<and> i < int (length arr) then Some (arr ! nat i) else None)"

record 'c matchIndexFn =
  "next" :: "node \<Rightarrow> 'c \<Rightarrow> 'c"
  Idx :: int

definition matchIndexFn_Call :: "'c matchIndexFn \<Rightarrow> node \<Rightarrow> 'c \<Rightarrow> 'c outcome" where
  "matchIndexFn_Call f nd ctx =
     (case nd of
        Array arr \<Rightarrow>
          if Idx f < int (length arr) \<and> Idx f \<ge> 0 then
            (case index arr (Idx f) of
               None \<Rightarrow> IndexPanic
             | Some x \<Rightarrow> Done (next f x ctx))
          else Done ctx
      | Other v \<Rightarrow> Done ctx)"

section \<open>Properties\<close>

subsection \<open>Facts about the primitives\<close>

lemma read_panics: "read dec = Inl (Panic (ReadPanic None))"
  by (simp add: read_def ReadRune_def split: list.splits)

lemma peek_NewDecoder: "peek (NewDecoder rs) = Inr (case rs of [] \<Rightarrow> eof | r # _ \<Rightarrow> r)"
  by (simp add: peek_def PeekRunes_def NewDecoder_def split: list.splits)

lemma peek_no_error: "peek dec \<noteq> Inl (Error e)"
  by (simp add: peek_def Let_def)

lemma wrap_Error: "wrap c f = Error e \<Longrightarrow> \<exists>e'. e = c e'"
  by (cases f) auto

subsection \<open>Facts about the loops\<close>


lemma of_char_nonneg: "0 \<le> (of_char c :: int)"
  by (metis of_nat_0_le_iff of_nat_of_char)

lemma string_of_rune_ascii: "(of_char c :: int) < 0x80 \<Longrightarrow> string_of_rune (ch c) = [c]"
  by (simp add: string_of_rune_def valid_rune_def byte_def ch_def of_char_nonneg)

text \<open>
  The loop of \<^verbatim>\<open>parseLiteralString\<close> does not move the reader: on a rune that is neither
  the end of the input nor a single quote it peeks the same rune again, for ever.
\<close>

lemma literal_loop_diverges:
  assumes "peek dec = Inr r" "r \<noteq> eof" "r \<noteq> quote"
  shows "parseLiteralString_loop dec g = None"
proof -
  let ?Q = "\<lambda>dec. \<exists>r. peek dec = Inr r \<and> r \<noteq> eof \<and> r \<noteq> quote"
  have "\<forall>dec g y. parseLiteralString_loop dec g = Some y \<longrightarrow> \<not> ?Q dec"
  proof (rule parseLiteralString_loop.fixp_induct
            [where P = "\<lambda>f. \<forall>dec g y. f dec g = Some y \<longrightarrow> \<not> ?Q dec"])
    show "option.admissible (\<lambda>f. \<forall>dec g y. curry f dec g = Some y \<longrightarrow> \<not> ?Q dec)"
      using option_admissible [of "\<lambda>x y. \<not> ?Q (fst x)"] by (simp add: curry_def)
  next
    show "\<forall>dec g y. None = Some y \<longrightarrow> \<not> ?Q dec" by simp
  next
    fix f :: "Decoder \<Rightarrow> string \<Rightarrow> (failure + string \<times> Decoder) option"
    assume "\<forall>dec g y. f dec g = Some y \<longrightarrow> \<not> ?Q dec"
    then show "\<forall>dec g y.
        (case peek dec of
           Inl f \<Rightarrow> Some (Inl f)
         | Inr r \<Rightarrow>
             if r = eof then Some (Inl (Error ErrUnfinishedLiteral))
             else if r = quote then
               (case read dec of
                  Inl f \<Rightarrow> Some (Inl f)
                | Inr (x, dec1) \<Rightarrow> Some (Inr (g, dec1)))
             else f dec (g @ string_of_rune r)) = Some y \<longrightarrow> \<not> ?Q dec"
      by (intro allI impI notI) (erule exE, clarsimp, blast)
  qed
  with assms show ?thesis by (cases "parseLiteralString_loop dec g") auto
qed

text \<open>The bare-key loop stops, with nothing read, at a rune no bare key can hold.\<close>

lemma bareKey_loop_stops:
  "peek dec = Inr r \<Longrightarrow> \<not> isValidBareKeyChar U r \<Longrightarrow> bareKey_loop U dec g = Some (Inr (g, dec))"
  by (subst bareKey_loop.simps) simp

lemma not_bare_eof: "\<not> isValidBareKeyChar U eof"
  by (simp add: isValidBareKeyChar_def isAlphanumeric_def IsLetter_def IsNumber_def ch_def eof_def)

lemma not_bare_equals: "\<not> isValidBareKeyChar U (ch CHR ''='')"
  by (simp add: isValidBareKeyChar_def isAlphanumeric_def IsLetter_def IsNumber_def
      latin1_letter_def latin1_number_def ch_def)

text \<open>
  The three skipping loops return no error value: they have no \<^verbatim>\<open>return\<close> of one, and
  \<^verbatim>\<open>peek\<close> and \<^verbatim>\<open>read\<close> only panic.
\<close>

lemma skipWhitespace_no_error: "skipWhitespace dec \<noteq> Some (Inl (Error e))"
proof -
  have "\<forall>dec y. skipWhitespace dec = Some y \<longrightarrow> (\<forall>e. y \<noteq> Inl (Error e))"
  proof (rule skipWhitespace.fixp_induct)
    show "option.admissible (\<lambda>f. \<forall>dec y. f dec = Some y \<longrightarrow> (\<forall>e. y \<noteq> Inl (Error e)))"
      by (rule option_admissible)
  next
    show "\<forall>dec y. None = Some y \<longrightarrow> (\<forall>e. y \<noteq> Inl (Error e))" by simp
  next
    fix f :: "Decoder \<Rightarrow> (failure + Decoder) option"
    assume IH: "\<forall>dec y. f dec = Some y \<longrightarrow> (\<forall>e. y \<noteq> Inl (Error e))"
    show "\<forall>dec y.
        (case peek dec of
           Inl f \<Rightarrow> Some (Inl f)
         | Inr r \<Rightarrow>
             if r = eof then Some (Inr dec)
             else if isRuneWhitespace r then
               (case read dec of
                  Inl f \<Rightarrow> Some (Inl f)
                | Inr (x, dec1) \<Rightarrow> f dec1)
             else f dec) = Some y \<longrightarrow> (\<forall>e. y \<noteq> Inl (Error e))"
      using IH peek_no_error by (auto simp: read_panics split: sum.splits if_splits)
  qed
  then show ?thesis by blast
qed

lemma skipComment_loop_no_error: "skipComment_loop dec \<noteq> Some (Inl (Error e))"
proof -
  have "\<forall>dec y. skipComment_loop dec = Some y \<longrightarrow> (\<forall>e. y \<noteq> Inl (Error e))"
  proof (rule skipComment_loop.fixp_induct)
    show "option.admissible (\<lambda>f. \<forall>dec y. f dec = Some y \<longrightarrow> (\<forall>e. y \<noteq> Inl (Error e)))"
      by (rule option_admissible)
  next
    show "\<forall>dec y. None = Some y \<longrightarrow> (\<forall>e. y \<noteq> Inl (Error e))" by simp
  next
    fix f :: "Decoder \<Rightarrow> (failure + Decoder) option"
    assume IH: "\<forall>dec y. f dec = Some y \<longrightarrow> (\<forall>e. y \<noteq> Inl (Error e))"
    show "\<forall>dec y.
        (let rs = peekRunes dec 2 in
         if length rs = 2 \<and> rs ! 0 = cr \<and> rs ! 1 = lf then
           (case read dec of
              Inl f \<Rightarrow> Some (Inl f)
            | Inr (_, dec1) \<Rightarrow>
                (case read dec1 of
                   Inl f \<Rightarrow> Some (Inl f)
                 | Inr (_, dec2) \<Rightarrow> Some (Inr dec2)))
         else if length rs = 1 \<and> rs ! 0 = lf then
           (case read dec of
              Inl f \<Rightarrow> Some (Inl f)
            | Inr (_, dec1) \<Rightarrow> Some (Inr dec1))
         else if length rs = 1 \<and> rs ! 0 = eof then Some (Inr dec)
         else f dec) = Some y \<longrightarrow> (\<forall>e. y \<noteq> Inl (Error e))"
      using IH by (auto simp: read_panics Let_def split: if_splits)
  qed
  then show ?thesis by blast
qed

lemma skipTrivia_no_error: "skipWhitespaceAndNewlinesAndComments dec \<noteq> Some (Inl (Error e))"
proof -
  have "\<forall>dec y. skipWhitespaceAndNewlinesAndComments dec = Some y \<longrightarrow> (\<forall>e. y \<noteq> Inl (Error e))"
  proof (rule skipWhitespaceAndNewlinesAndComments.fixp_induct)
    show "option.admissible (\<lambda>f. \<forall>dec y. f dec = Some y \<longrightarrow> (\<forall>e. y \<noteq> Inl (Error e)))"
      by (rule option_admissible)
  next
    show "\<forall>dec y. None = Some y \<longrightarrow> (\<forall>e. y \<noteq> Inl (Error e))" by simp
  next
    fix f :: "Decoder \<Rightarrow> (failure + Decoder) option"
    assume IH: "\<forall>dec y. f dec = Some y \<longrightarrow> (\<forall>e. y \<noteq> Inl (Error e))"
    show "\<forall>dec y.
        (case peek dec of
           Inl f \<Rightarrow> Some (Inl f)
         | Inr r \<Rightarrow>
             if r = eof then Some (Inr dec)
             else if isRuneWhitespace r \<or> r = lf then
               (case read dec of
                  Inl f \<Rightarrow> Some (Inl f)
                | Inr (_, dec1) \<Rightarrow> f dec1)
             else if r = cr \<and>
                 (let rs = peekRunes dec 2 in length rs = 2 \<and> rs ! 0 = cr \<and> rs ! 1 = lf) then
               (case read dec of
                  Inl f \<Rightarrow> Some (Inl f)
                | Inr (_, dec1) \<Rightarrow>
                    (case read dec1 of
                       Inl f \<Rightarrow> Some (Inl f)
                     | Inr (_, dec2) \<Rightarrow> f dec2))
             else if r = ch CHR ''#'' then
               (case read dec of
                  Inl f \<Rightarrow> Some (Inl f)
                | Inr (_, dec1) \<Rightarrow> skipComment_loop dec1)
             else Some (Inr dec)) = Some y \<longrightarrow> (\<forall>e. y \<noteq> Inl (Error e))"
      using peek_no_error by (auto simp: read_panics split: sum.splits if_splits)
  qed
  then show ?thesis by blast
qed

lemma Decode_run_errors:
  "Decode_run U dec = Some (Inl (Error e)) \<Longrightarrow>
     (\<exists>e'. e = ErrKey e') \<or> (\<exists>r. e = ErrExpectedEquals r) \<or> (\<exists>r. e = ErrUnexpectedTopLevel r)"
  unfolding Decode_run_def
  using skipTrivia_no_error skipWhitespace_no_error peek_no_error
  by (auto simp: read_panics dest: wrap_Error
      split: option.splits sum.splits if_splits prod.splits)


subsection \<open>Reading one rune\<close>

text \<open>
  C1. \<^verbatim>\<open>read\<close> never returns a rune: on the one-rune input \<^verbatim>\<open>a\<close>, and on every other
  decoder, empty or not, the call ends in the panic raised after \<^verbatim>\<open>ReadRune\<close>. The
  claim asks that it succeed on every non-empty input.
\<close>

theorem read_always_panics:
  "read (NewDecoder (runes ''a'')) = Inl (Panic (ReadPanic None)) \<and>
   (\<forall>dec. \<exists>p. read dec = Inl (Panic p))"
  by (simp add: read_def ReadRune_def split: list.splits)

subsection \<open>Decode and the caller's target\<close>

text \<open>
  C2, as the claim states it, at the input \<^verbatim>\<open>[a]\<close> and an empty table as the target:
  \<^verbatim>\<open>Decode\<close> returns \<^verbatim>\<open>nil\<close> with nothing read, and the target is still the empty table,
  not the root table of the document.
\<close>

theorem Decode_success_target_not_populated:
  "Decode empty_tables (NewDecoder (runes ''[a]'')) (Pointer ([] :: (string \<times> string) list)) =
     (Some (Inr (NewDecoder (runes ''[a]''))), Pointer [])"
  apply (simp add: Decode_def Decode_run_def)
  apply (subst skipWhitespaceAndNewlinesAndComments.simps)
  apply (simp add: peek_NewDecoder runes_def ch_def eof_def isRuneWhitespace_def
      space_def tab_def lf_def cr_def)
  done

text \<open>
  C2, amended. For every input and every argument, \<^verbatim>\<open>Decode\<close> leaves the caller's target
  as it found it, however the call ends: with an error, with \<^verbatim>\<open>nil\<close>, with a panic or
  not at all.
\<close>

theorem Decode_never_mutates_target:
  "snd (Decode U dec v) = v"
  by (simp add: Decode_def split: arg.splits)

subsection \<open>Skipping at the top level\<close>

text \<open>
  C3. On the input made of one line feed, a blank line,
  \<^verbatim>\<open>skipWhitespaceAndNewlinesAndComments\<close> does not consume it and return: it panics
  in \<^verbatim>\<open>read\<close>. The claim asks that one call consume the whole run of blank lines and
  comments.
\<close>

theorem skipTrivia_blank_line_panics:
  "skipWhitespaceAndNewlinesAndComments (NewDecoder [lf]) = Some (Inl (Panic (ReadPanic None)))"
  by (subst skipWhitespaceAndNewlinesAndComments.simps)
     (simp add: peek_NewDecoder read_panics lf_def eof_def)

subsection \<open>Literal strings\<close>

text \<open>
  C4. On \<^verbatim>\<open>abc\<close>, the body of the unterminated literal \<^verbatim>\<open>'abc\<close>, \<^verbatim>\<open>parseLiteralString\<close>
  never returns. The claim asks that it terminate on every finite input, here with the
  error of an unterminated string.
\<close>

theorem parseLiteralString_unterminated_diverges:
  "parseLiteralString (NewDecoder (runes ''abc'')) = None"
  unfolding parseLiteralString_def
  by (rule literal_loop_diverges [of _ "ch CHR ''a''"])
     (simp_all add: peek_NewDecoder runes_def ch_def eof_def quote_def)

subsection \<open>Escapes of a quoted string\<close>

text \<open>
  C5. On \<^verbatim>\<open>\b"\<close>, the rest of the basic string \<^verbatim>\<open>"\b"\<close>, \<^verbatim>\<open>parseQuotedString\<close> panics when
  it reads the backslash. In the dispatch on the escape character itself, \<^verbatim>\<open>b\<close> is
  taken by the first condition of the chain and appended as the letter \<^verbatim>\<open>b\<close>, so that
  the branch for the backspace is never reached; \<^verbatim>\<open>/\<close> is accepted; and a character
  with no branch, such as \<^verbatim>\<open>q\<close>, is no error. The claim asks for the backspace, for an
  error on every character outside the nine, and for no unreachable branch.
\<close>

theorem escape_dispatch_b_slash_other:
  "parseQuotedString U (NewDecoder [backslash, ch CHR ''b'', dquote]) =
     Some (Inl (Panic (ReadPanic None))) \<and>
   escape U dec (ch CHR ''b'') g = Inr (g @ ''b'', dec) \<and>
   escape U dec (ch CHR ''/'') g = Inr (g @ ''/'', dec) \<and>
   escape U dec (ch CHR ''q'') g = Inr (g, dec)"
proof -
  have 1: "parseQuotedString U (NewDecoder [backslash, ch CHR ''b'', dquote]) =
      Some (Inl (Panic (ReadPanic None)))"
    unfolding parseQuotedString_def
    by (subst parseQuotedString_loop.simps)
       (simp add: peek_NewDecoder read_panics backslash_def dquote_def eof_def)
  have 2: "escape U dec (ch CHR ''b'') g = Inr (g @ ''b'', dec)"
    by (simp add: escape_def string_of_rune_ascii)
  have 3: "escape U dec (ch CHR ''/'') g = Inr (g @ ''/'', dec)"
    by (simp add: escape_def string_of_rune_ascii)
  have 4: "escape U dec (ch CHR ''q'') g = Inr (g, dec)"
    by (simp add: escape_def ch_def dquote_def backslash_def)
  from 1 2 3 4 show ?thesis by simp
qed

subsection \<open>Unicode escapes\<close>




subsection \<open>Keys\<close>

text \<open>
  C7. On the two inputs of the claim \<^verbatim>\<open>parseDottedKey\<close> yields no key at all. On
  \<^verbatim>\<open>a.b.c\<close> it panics when the bare-key loop reads the rune \<^verbatim>\<open>a\<close>; on \<^verbatim>\<open>'a.b'\<close> it
  panics when \<^verbatim>\<open>parseSimpleKey\<close> reads the opening quote. The claim asks for the three
  segments \<^verbatim>\<open>a\<close>, \<^verbatim>\<open>b\<close>, \<^verbatim>\<open>c\<close> on the first and for the one segment \<^verbatim>\<open>a.b\<close> on the
  second.
\<close>

theorem parseDottedKey_panics_on_keys:
  "parseDottedKey U (NewDecoder (runes ''a.b.c'')) = Some (Inl (Panic (ReadPanic None))) \<and>
   parseDottedKey U (NewDecoder (quote # runes ''a.b'' @ [quote])) =
     Some (Inl (Panic (ReadPanic None)))"
proof -
  have p: "peek (NewDecoder (runes ''a.b.c'')) = Inr (ch CHR ''a'')"
    by (simp add: peek_NewDecoder runes_def)
  have a: "ch CHR ''a'' \<noteq> quote" "ch CHR ''a'' \<noteq> dquote" "isValidBareKeyChar U (ch CHR ''a'')"
    by (simp_all add: ch_def quote_def dquote_def isValidBareKeyChar_def isAlphanumeric_def
        IsLetter_def latin1_letter_def)
  have "bareKey_loop U (NewDecoder (runes ''a.b.c'')) '''' = Some (Inl (Panic (ReadPanic None)))"
    by (subst bareKey_loop.simps) (simp add: p a read_panics)
  then have 1: "parseDottedKey U (NewDecoder (runes ''a.b.c'')) =
      Some (Inl (Panic (ReadPanic None)))"
    by (simp add: parseDottedKey_def parseSimpleKey_def p a)
  have q: "peek (NewDecoder (quote # runes ''a.b'' @ [quote])) = Inr quote"
    by (simp add: peek_NewDecoder)
  have 2: "parseDottedKey U (NewDecoder (quote # runes ''a.b'' @ [quote])) =
      Some (Inl (Panic (ReadPanic None)))"
    by (simp add: parseDottedKey_def parseSimpleKey_def q read_panics)
  from 1 2 show ?thesis by simp
qed

text \<open>
  C8. On the input \<^verbatim>\<open>=1\<close>, and at the end of the input, the bare-key branch of
  \<^verbatim>\<open>parseSimpleKey\<close> consumes nothing and returns the empty key with no error. The
  claim asks for the error of an empty key, which the branch of the quoted key has.
\<close>

theorem parseSimpleKey_empty_bare_key:
  "parseSimpleKey U (NewDecoder (runes ''=1'')) = Some (Inr ('''', NewDecoder (runes ''=1''))) \<and>
   parseSimpleKey U (NewDecoder []) = Some (Inr ('''', NewDecoder []))"
proof -
  have p: "peek (NewDecoder (runes ''=1'')) = Inr (ch CHR ''='')"
    by (simp add: peek_NewDecoder runes_def)
  have "ch CHR ''='' \<noteq> quote" "ch CHR ''='' \<noteq> dquote"
    by (simp_all add: ch_def quote_def dquote_def)
  then have 1: "parseSimpleKey U (NewDecoder (runes ''=1'')) =
      Some (Inr ('''', NewDecoder (runes ''=1'')))"
    by (simp add: parseSimpleKey_def p bareKey_loop_stops [OF p not_bare_equals])
  have q: "peek (NewDecoder []) = Inr eof"
    by (simp add: peek_NewDecoder)
  have "eof \<noteq> quote" "eof \<noteq> dquote"
    by (simp_all add: eof_def quote_def dquote_def)
  then have 2: "parseSimpleKey U (NewDecoder []) = Some (Inr ('''', NewDecoder []))"
    by (simp add: parseSimpleKey_def q bareKey_loop_stops [OF q not_bare_eof])
  from 1 2 show ?thesis by simp
qed

subsection \<open>Keys bound twice\<close>

text \<open>
  C9, as the claim states it, at the two lines \<^verbatim>\<open>key="a"\<close> and \<^verbatim>\<open>key="b"\<close>: \<^verbatim>\<open>Decode\<close> does
  not fail with the error of a duplicate key, it panics when it reads the first rune of
  the first key.
\<close>

theorem Decode_duplicate_key_input:
  "fst (Decode empty_tables
          (NewDecoder (runes ''key='' @ [dquote, ch CHR ''a'', dquote, lf] @
                       runes ''key='' @ [dquote, ch CHR ''b'', dquote]))
          (Pointer ([] :: (string \<times> string) list))) =
     Some (Inl (Panic (ReadPanic None)))"
  apply (simp add: Decode_def Decode_run_def)
  apply (subst skipWhitespaceAndNewlinesAndComments.simps)
  apply (simp add: peek_NewDecoder runes_def ch_def eof_def isRuneWhitespace_def space_def
      tab_def lf_def cr_def isStartOfKey_def parseDottedKey_def parseSimpleKey_def
      quote_def dquote_def)
  apply (subst bareKey_loop.simps)
  apply (simp add: peek_NewDecoder read_panics isValidBareKeyChar_def isAlphanumeric_def
      IsLetter_def latin1_letter_def)
  done

text \<open>
  C9, amended. \<^verbatim>\<open>Decode\<close> does not detect a key bound twice and has no failure for it:
  every error it returns is one of the argument that is not a pointer, the nil
  argument, the error of a key, the missing \<^verbatim>\<open>=\<close> after a key, and the unexpected
  character at the top level.
\<close>

theorem Decode_errors:
  "fst (Decode U dec v) = Some (Inl (Error e)) \<Longrightarrow>
     e = ErrNeedsPointer \<or> e = ErrNilPointer \<or> (\<exists>e'. e = ErrKey e') \<or>
     (\<exists>r. e = ErrExpectedEquals r) \<or> (\<exists>r. e = ErrUnexpectedTopLevel r)"
  using Decode_run_errors [of U dec e] by (auto simp: Decode_def split: arg.splits)

text \<open>The empty input: the error is the unexpected character, here the end of the input.\<close>

theorem Decode_errors_witness:
  "fst (Decode empty_tables (NewDecoder []) (Pointer ([] :: (string \<times> string) list))) =
     Some (Inl (Error (ErrUnexpectedTopLevel eof)))"
proof -
  have 1: "fst (Decode empty_tables (NewDecoder []) (Pointer ([] :: (string \<times> string) list))) =
      Some (Inl (Error (ErrUnexpectedTopLevel eof)))"
    apply (simp add: Decode_def Decode_run_def)
    apply (subst skipWhitespaceAndNewlinesAndComments.simps)
    apply (simp add: peek_NewDecoder isStartOfKey_def ch_def eof_def quote_def dquote_def)
    done
  from Decode_errors [OF 1] 1 show ?thesis by simp
qed

subsection \<open>The index match of jpath\<close>

text \<open>
  C10. \<^verbatim>\<open>matchIndexFn.Call\<close> calls the next functor exactly when the node is an array
  and \<open>0 \<le> Idx < length\<close>, on the element at \<open>Idx\<close>; for any other index and for a node
  that is not an array it leaves the query context as it is; the element access never
  panics.
\<close>

theorem matchIndexFn_Call_in_bounds:
  "matchIndexFn_Call f nd ctx =
     (case nd of
        Array arr \<Rightarrow>
          if 0 \<le> Idx f \<and> Idx f < int (length arr)
          then Done (next f (arr ! nat (Idx f)) ctx) else Done ctx
      | Other v \<Rightarrow> Done ctx) \<and>
   matchIndexFn_Call f nd ctx \<noteq> IndexPanic"
  by (simp add: matchIndexFn_Call_def index_def split: node.splits)

text \<open>
  The match on the array \<^verbatim>\<open>["a", "b"]\<close> with a next functor that gathers the nodes it is
  given: index 1 gathers \<^verbatim>\<open>"b"\<close>, index 2 gathers nothing.
\<close>

theorem matchIndexFn_Call_in_bounds_witness:
  "matchIndexFn_Call \<lparr>next = (\<lambda>n c. c @ [n]), Idx = 1\<rparr>
       (Array [Other ''a'', Other ''b'']) [] = Done [Other ''b''] \<and>
   matchIndexFn_Call \<lparr>next = (\<lambda>n c. c @ [n]), Idx = 2\<rparr>
       (Array [Other ''a'', Other ''b'']) [] = Done []"
  using matchIndexFn_Call_in_bounds
          [of "\<lparr>next = (\<lambda>n c. c @ [n]), Idx = 1\<rparr>" "Array [Other ''a'', Other ''b'']" "[]"]
        matchIndexFn_Call_in_bounds
          [of "\<lparr>next = (\<lambda>n c. c @ [n]), Idx = 2\<rparr>" "Array [Other ''a'', Other ''b'']" "[]"]
  by simp

end
